theory Spec2Isabelle
  imports Main
begin

section \<open>Data model\<close>

text \<open>
  Timestamps are Python \<^verbatim>\<open>datetime\<close> values in UTC, represented by the number of
  microseconds since 1970-01-01T00:00:00Z (the resolution of \<^verbatim>\<open>datetime\<close>).
  \<^verbatim>\<open>.date()\<close> is the calendar day, the number of whole days since the epoch
  (\<open>div\<close> on \<open>int\<close> rounds towards minus infinity, as the calendar does). The
  timestamps stored in the database are taken to be read back in UTC as well, so that
  one \<open>date\<close> serves the clock and the stored values alike.
\<close>

type_synonym datetime = int

type_synonym uuid = nat

definition date :: "datetime \<Rightarrow> int" where
  "date t = t div 86400000000"

definition timedelta_minutes :: "int \<Rightarrow> int" where
  "timedelta_minutes m = m * 60000000"

text \<open>
  The two relations of \<^verbatim>\<open>app.api.v1.core.models\<close>, with the columns the code reads
  and writes. The primary key column \<^verbatim>\<open>id\<close> of \<^verbatim>\<open>Users\<close> is the field \<open>id'\<close>.
\<close>

record Users =
  id' :: uuid
  email :: string
  hashed_password :: string
  is_active :: bool
  is_admin :: bool
  credits :: int
  last_credit_refill :: "datetime option"
  last_login_credit :: "datetime option"

record Token =
  token :: string
  user_id :: uuid
  created_at :: datetime

text \<open>
  The database the \<^verbatim>\<open>Session\<close> talks to: the rows of both tables, in the order in
  which a \<^verbatim>\<open>select\<close> returns them (\<^verbatim>\<open>.first()\<close> takes the first match).
\<close>

record database =
  users :: "Users list"
  tokens :: "Token list"

text \<open>
  Every \<^verbatim>\<open>raise\<close> is a value. \<open>HTTPException\<close> carries status code, detail and
  headers. \<open>AttributeError\<close> is Python's reaction to \<^verbatim>\<open>user.credits\<close> when the
  relationship \<^verbatim>\<open>token_obj.user\<close> loads \<^verbatim>\<open>None\<close>; \<open>InvalidRequestError\<close> is
  SQLAlchemy's when \<^verbatim>\<open>db.refresh\<close> finds no row; \<open>IntegrityError\<close> is the
  storage rejecting a duplicate key.
\<close>

datatype error =
    HTTPException nat string "(string \<times> string) list"
  | AttributeError
  | InvalidRequestError
  | IntegrityError

definition bearer_headers :: "(string \<times> string) list" where
  "bearer_headers = [(''WWW-Authenticate'', ''Bearer'')]"

record TokenSchema =
  access_token :: string
  token_type :: string

section \<open>security.py\<close>

text \<open>
  \<^verbatim>\<open>verify_token_access\<close>. The setting \<^verbatim>\<open>ACCESS_TOKEN_EXPIRE_MINUTES\<close> and the
  reading of the clock are parameters.
\<close>

definition verify_token_access :: "int \<Rightarrow> datetime \<Rightarrow> string \<Rightarrow> database \<Rightarrow> error + Token" where
  "verify_token_access expire_minutes now token_str db =
     (let max_age = timedelta_minutes expire_minutes in
      case find (\<lambda>t. token t = token_str \<and> created_at t \<ge> now - max_age) (tokens db) of
        None \<Rightarrow> Inl (HTTPException 401 ''Token invalid or expired'' bearer_headers)
      | Some t \<Rightarrow> Inr t)"

text \<open>
  \<^verbatim>\<open>token_obj.user\<close>: the relationship loads the row of \<^verbatim>\<open>Users\<close> whose primary key
  is the token's \<^verbatim>\<open>user_id\<close>, or \<^verbatim>\<open>None\<close>.
\<close>

definition token_user :: "Token \<Rightarrow> database \<Rightarrow> Users option" where
  "token_user token_obj db = find (\<lambda>u. id' u = user_id token_obj) (users db)"

text \<open>
  \<^verbatim>\<open>db.commit()\<close> in \<^verbatim>\<open>get_current_user\<close>: the session flushes the attributes assigned
  on the loaded object, an \<^verbatim>\<open>UPDATE users SET ... WHERE id = ...\<close> of the three credit
  columns. \<^verbatim>\<open>db.refresh(user)\<close> reads the row back by its primary key.
\<close>

definition commit_user :: "Users \<Rightarrow> database \<Rightarrow> database" where
  "commit_user user db =
     db\<lparr>users :=
          map (\<lambda>u. if id' u = id' user
                    then u\<lparr>credits := credits user,
                           last_credit_refill := last_credit_refill user,
                           last_login_credit := last_login_credit user\<rparr>
                    else u)
              (users db)\<rparr>"

definition refresh :: "Users \<Rightarrow> database \<Rightarrow> error + Users" where
  "refresh user db =
     (case find (\<lambda>u. id' u = id' user) (users db) of
        None \<Rightarrow> Inl InvalidRequestError
      | Some u \<Rightarrow> Inr u)"

text \<open>
  The detail of the 403 of \<^verbatim>\<open>get_current_user\<close> is Swedish; the letter a-umlaut is
  written as its two UTF-8 bytes.
\<close>

definition detail_not_activated :: string where
  "detail_not_activated =
     ''Kontot '' @ [CHR 0xC3, CHR 0xA4] @ ''r inte aktiverat. V'' @ [CHR 0xC3, CHR 0xA4]
       @ ''nligen aktivera ditt konto.''"

text \<open>
  \<^verbatim>\<open>get_current_user\<close>. The clock is read twice, once inside
  \<^verbatim>\<open>verify_token_access\<close> (\<open>now_verify\<close>) and once for the credit rules (\<open>now\<close>).
  The result is the returned user or the raised error, together with the database the
  call leaves behind.
\<close>

definition get_current_user ::
  "int \<Rightarrow> datetime \<Rightarrow> datetime \<Rightarrow> string \<Rightarrow> database \<Rightarrow> (error + Users) \<times> database" where
  "get_current_user expire_minutes now_verify now token_str db =
     (case verify_token_access expire_minutes now_verify token_str db of
        Inl e \<Rightarrow> (Inl e, db)
      | Inr token_obj \<Rightarrow>
          (case token_user token_obj db of
             None \<Rightarrow> (Inl AttributeError, db)
           | Some user \<Rightarrow>
               (let user1 =
                      (if credits user = 0
                          \<and> (case last_credit_refill user of
                                None \<Rightarrow> False
                              | Some r \<Rightarrow> date now > date r)
                       then user\<lparr>credits := credits user + 10, last_credit_refill := Some now\<rparr>
                       else user);
                    user2 =
                      (if (case last_login_credit user1 of
                             None \<Rightarrow> True
                           | Some l \<Rightarrow> date l \<noteq> date now)
                       then user1\<lparr>credits := credits user1 + 1, last_login_credit := Some now\<rparr>
                       else user1);
                    db' = commit_user user2 db
                in case refresh user2 db' of
                     Inl e \<Rightarrow> (Inl e, db')
                   | Inr user3 \<Rightarrow>
                       if \<not> is_active user3
                       then (Inl (HTTPException 403 detail_not_activated bearer_headers), db')
                       else (Inr user3, db'))))"

text \<open>
  \<^verbatim>\<open>get_current_admin\<close> receives the user that \<^verbatim>\<open>get_current_user\<close> returned;
  \<open>depends_get_current_admin\<close> is the dependency chain as the framework runs it: an
  exception of the inner dependency ends the request.
\<close>

definition get_current_admin :: "Users \<Rightarrow> error + Users" where
  "get_current_admin current_user =
     (if \<not> is_admin current_user
      then Inl (HTTPException 403 ''Not authorized. admin privileges required.'' bearer_headers)
      else Inr current_user)"

definition depends_get_current_admin ::
  "int \<Rightarrow> datetime \<Rightarrow> datetime \<Rightarrow> string \<Rightarrow> database \<Rightarrow> (error + Users) \<times> database" where
  "depends_get_current_admin expire_minutes now_verify now token_str db =
     (case get_current_user expire_minutes now_verify now token_str db of
        (Inl e, db') \<Rightarrow> (Inl e, db')
      | (Inr current_user, db') \<Rightarrow> (get_current_admin current_user, db'))"

definition get_current_token :: "int \<Rightarrow> datetime \<Rightarrow> string \<Rightarrow> database \<Rightarrow> error + Token" where
  "get_current_token expire_minutes now token_str db =
     verify_token_access expire_minutes now token_str db"

text \<open>
  Modelled from the spec: the declaration of the \<^verbatim>\<open>Token\<close> table
  (\<^verbatim>\<open>app.api.v1.core.models\<close>) is not among the sources. Following the spec, the
  token string is the primary key, so that \<^verbatim>\<open>db.add\<close> with \<^verbatim>\<open>db.commit\<close> of a row
  whose string is already stored is rejected by the storage, and a new row gets the
  current time as \<^verbatim>\<open>created_at\<close>.
\<close>

definition add_token :: "Token \<Rightarrow> database \<Rightarrow> error + database" where
  "add_token new_token db =
     (if token new_token \<in> set (map token (tokens db))
      then Inl IntegrityError
      else Inr (db\<lparr>tokens := tokens db @ [new_token]\<rparr>))"

text \<open>
  \<^verbatim>\<open>create_database_token\<close>. The random string drawn by \<^verbatim>\<open>token_urlsafe()\<close> and
  the clock are parameters.
\<close>

definition create_database_token ::
  "string \<Rightarrow> datetime \<Rightarrow> uuid \<Rightarrow> database \<Rightarrow> (error + Token) \<times> database" where
  "create_database_token randomized_token now uid db =
     (let new_token = \<lparr>token = randomized_token, user_id = uid, created_at = now\<rparr>
      in case add_token new_token db of
           Inl e \<Rightarrow> (Inl e, db)
         | Inr db' \<Rightarrow> (Inr new_token, db'))"

section \<open>authentication.py\<close>

text \<open>
  \<^verbatim>\<open>login\<close>. \<^verbatim>\<open>verify_password\<close> (passlib's bcrypt check) is a parameter, as are the
  random token and the clock.
\<close>

definition login ::
  "(string \<Rightarrow> string \<Rightarrow> bool) \<Rightarrow> string \<Rightarrow> datetime \<Rightarrow> string \<Rightarrow> string \<Rightarrow> database
     \<Rightarrow> (error + TokenSchema) \<times> database" where
  "login verify_password randomized_token now username password db =
     (case find (\<lambda>u. email u = username) (users db) of
        None \<Rightarrow> (Inl (HTTPException 400 ''User does not exist'' bearer_headers), db)
      | Some user \<Rightarrow>
          if \<not> verify_password password (hashed_password user)
          then (Inl (HTTPException 401 ''Passwords do not match'' bearer_headers), db)
          else if \<not> is_active user
          then (Inl (HTTPException 403
                  ''Account not activated. Please check your email and activate your account.''
                  bearer_headers), db)
          else (case create_database_token randomized_token now (id' user) db of
                  (Inl e, db') \<Rightarrow> (Inl e, db')
                | (Inr access_token_row, db') \<Rightarrow>
                    (Inr \<lparr>access_token = token access_token_row, token_type = ''bearer''\<rparr>,
                     db')))"

text \<open>
  \<^verbatim>\<open>logout\<close>: the dependency \<^verbatim>\<open>get_current_token\<close> runs first; then every row whose
  string equals the token's is deleted. The response is its status code.
\<close>

definition logout :: "int \<Rightarrow> datetime \<Rightarrow> string \<Rightarrow> database \<Rightarrow> (error + nat) \<times> database" where
  "logout expire_minutes now token_str db =
     (case get_current_token expire_minutes now token_str db of
        Inl e \<Rightarrow> (Inl e, db)
      | Inr current_token \<Rightarrow>
          (Inr 204, db\<lparr>tokens := filter (\<lambda>t. token t \<noteq> token current_token) (tokens db)\<rparr>))"

section \<open>The credit rules as the specification words them\<close>

text \<open>
  These definitions follow the specification, not the code: the refill rule fires when
  the credits are zero and the last refill is set and lies on an earlier day; the login
  bonus fires when the last login credit is unset or lies on another day;
  \<open>resolved_user\<close> is the user after both rules. \<open>store_credit_fields\<close> writes the three
  credit columns of \<open>v\<close> into the rows with key \<open>k\<close>. They are compared with
  \<open>get_current_user\<close> below.
\<close>

definition refill_rule_fires :: "datetime \<Rightarrow> Users \<Rightarrow> bool" where
  "refill_rule_fires now u \<longleftrightarrow>
     credits u = 0 \<and> (case last_credit_refill u of None \<Rightarrow> False | Some r \<Rightarrow> date r < date now)"

definition login_bonus_fires :: "datetime \<Rightarrow> Users \<Rightarrow> bool" where
  "login_bonus_fires now u \<longleftrightarrow>
     (case last_login_credit u of None \<Rightarrow> True | Some l \<Rightarrow> date l \<noteq> date now)"

definition resolved_user :: "datetime \<Rightarrow> Users \<Rightarrow> Users" where
  "resolved_user now u =
     u\<lparr>credits := credits u + (if refill_rule_fires now u then 10 else 0)
                            + (if login_bonus_fires now u then 1 else 0),
       last_credit_refill := (if refill_rule_fires now u then Some now else last_credit_refill u),
       last_login_credit := (if login_bonus_fires now u then Some now else last_login_credit u)\<rparr>"

definition store_credit_fields :: "uuid \<Rightarrow> Users \<Rightarrow> database \<Rightarrow> database" where
  "store_credit_fields k v db =
     db\<lparr>users := map (\<lambda>u. if id' u = k
                           then u\<lparr>credits := credits v,
                                  last_credit_refill := last_credit_refill v,
                                  last_login_credit := last_login_credit v\<rparr>
                           else u) (users db)\<rparr>"

section \<open>Runs of identity resolution\<close>

text \<open>
  \<open>user_row\<close> is the row of a user, \<open>credits_of\<close> its credits (0 when there is no such
  row). A run is a sequence of events on the database: \<open>Resolve\<close> is a call of
  \<open>get_current_user\<close>, given by its two clock readings and its token; \<open>Other db'\<close> stands
  for whatever else happens between two calls (credits being spent, other users, tokens
  issued or deleted) and leaves the database \<open>db'\<close> behind. \<open>credit_gains\<close> runs the
  events one after the other and lists by how much each call of \<open>get_current_user\<close>
  raised the credits of user \<open>k\<close>.

  \<open>same_timestamps\<close> says that two databases agree on the two credit timestamps of user
  \<open>k\<close> (and on whether \<open>k\<close> has a row). \<open>day_run\<close> says that a run lies on the calendar
  day \<open>d\<close> as far as user \<open>k\<close> is concerned: every call reads the clock for the credit
  rules on day \<open>d\<close>, and every other event keeps the two timestamps of \<open>k\<close>, which only
  \<open>get_current_user\<close> writes. \<open>refill_settled\<close> and \<open>bonus_settled\<close> say that a rule
  cannot fire for \<open>k\<close> on day \<open>d\<close> any more.
\<close>

definition user_row :: "uuid \<Rightarrow> database \<Rightarrow> Users option" where
  "user_row k db = find (\<lambda>u. id' u = k) (users db)"

definition credits_of :: "uuid \<Rightarrow> database \<Rightarrow> int" where
  "credits_of k db = (case user_row k db of None \<Rightarrow> 0 | Some u \<Rightarrow> credits u)"

datatype event = Resolve datetime datetime string | Other database

fun credit_gains :: "int \<Rightarrow> uuid \<Rightarrow> event list \<Rightarrow> database \<Rightarrow> int list" where
  "credit_gains m k [] db = []"
| "credit_gains m k (Resolve now_verify now token_str # events) db =
     (let db' = snd (get_current_user m now_verify now token_str db)
      in (credits_of k db' - credits_of k db) # credit_gains m k events db')"
| "credit_gains m k (Other db' # events) db = credit_gains m k events db'"

definition same_timestamps :: "uuid \<Rightarrow> database \<Rightarrow> database \<Rightarrow> bool" where
  "same_timestamps k db db' \<longleftrightarrow>
     map_option last_credit_refill (user_row k db')
       = map_option last_credit_refill (user_row k db)
     \<and> map_option last_login_credit (user_row k db')
         = map_option last_login_credit (user_row k db)"

fun day_run :: "int \<Rightarrow> int \<Rightarrow> uuid \<Rightarrow> event list \<Rightarrow> database \<Rightarrow> bool" where
  "day_run m d k [] db = True"
| "day_run m d k (Resolve now_verify now token_str # events) db =
     (date now = d
      \<and> day_run m d k events (snd (get_current_user m now_verify now token_str db)))"
| "day_run m d k (Other db' # events) db =
     (same_timestamps k db db' \<and> day_run m d k events db')"

definition refill_settled :: "int \<Rightarrow> uuid \<Rightarrow> database \<Rightarrow> bool" where
  "refill_settled d k db \<longleftrightarrow>
     (case user_row k db of
        None \<Rightarrow> True
      | Some u \<Rightarrow> (case last_credit_refill u of None \<Rightarrow> True | Some r \<Rightarrow> d \<le> date r))"

definition bonus_settled :: "int \<Rightarrow> uuid \<Rightarrow> database \<Rightarrow> bool" where
  "bonus_settled d k db \<longleftrightarrow>
     (case user_row k db of
        None \<Rightarrow> True
      | Some u \<Rightarrow> (case last_login_credit u of None \<Rightarrow> False | Some l \<Rightarrow> date l = d))"

section \<open>Example data\<close>

text \<open>
  A small database used to exercise the theorems: day 1 starts at 86400000000 and day 2
  at 172800000000. User 1 is active, not an administrator, has no credits, was refilled
  on day 0 and never had a login bonus. User 2 is an inactive administrator with no
  credits who was never refilled and whose login bonus was given on day 1. User 3 is an
  active administrator with 3 credits.
\<close>

definition example_user :: Users where
  "example_user =
     \<lparr>id' = 1, email = ''a@b.se'', hashed_password = ''h1'', is_active = True,
      is_admin = False, credits = 0, last_credit_refill = Some 0,
      last_login_credit = None\<rparr>"

definition example_other :: Users where
  "example_other =
     \<lparr>id' = 2, email = ''c@d.se'', hashed_password = ''h2'', is_active = False,
      is_admin = True, credits = 0, last_credit_refill = None,
      last_login_credit = Some 86400000000\<rparr>"

definition example_admin :: Users where
  "example_admin =
     \<lparr>id' = 3, email = ''e@f.se'', hashed_password = ''h3'', is_active = True,
      is_admin = True, credits = 3, last_credit_refill = Some 0,
      last_login_credit = Some 86400000000\<rparr>"

definition token_abc :: Token where
  "token_abc = \<lparr>token = ''abc'', user_id = 1, created_at = 86400000000\<rparr>"

definition token_xyz :: Token where
  "token_xyz = \<lparr>token = ''xyz'', user_id = 2, created_at = 86400000000\<rparr>"

definition token_def :: Token where
  "token_def = \<lparr>token = ''def'', user_id = 1, created_at = 86400000001\<rparr>"

definition token_adm :: Token where
  "token_adm = \<lparr>token = ''adm'', user_id = 3, created_at = 86400000000\<rparr>"

definition example_db :: database where
  "example_db =
     \<lparr>users = [example_user, example_other, example_admin],
      tokens = [token_abc, token_xyz, token_def, token_adm]\<rparr>"

text \<open>
  A run on day 1 for user 1, whose tokens are \<open>abc\<close> and \<open>def\<close>: a call, then the
  credits it granted are spent (\<open>example_spent\<close> is the database after that, with user 1
  back at zero credits and the timestamps the call wrote), then two more calls.
\<close>

definition example_spent :: database where
  "example_spent =
     \<lparr>users = [example_user\<lparr>last_credit_refill := Some 86400000002,
                              last_login_credit := Some 86400000002\<rparr>,
               example_other, example_admin],
      tokens = [token_abc, token_xyz, token_def, token_adm]\<rparr>"

definition example_events :: "event list" where
  "example_events =
     [Resolve 86400000001 86400000002 ''abc'', Other example_spent,
      Resolve 86400000003 86400000004 ''def'', Resolve 86400000005 86400000006 ''abc'']"

section \<open>Lookups\<close>

lemma find_None_iff_no_match: "find P xs = None \<longleftrightarrow> (\<forall>x\<in>set xs. \<not> P x)"
  by (induction xs) auto

lemma find_Some_props: "find P xs = Some x \<Longrightarrow> x \<in> set xs \<and> P x"
  by (induction xs) (auto split: if_splits)

lemma find_map_same_key:
  assumes "\<And>u. id' (f u) = id' u"
  shows "find (\<lambda>u. id' u = k) (map f xs) = map_option f (find (\<lambda>u. id' u = k) xs)"
  using assms by (induction xs) simp_all

lemma token_user_id: "token_user tk db = Some user \<Longrightarrow> id' user = user_id tk"
  unfolding token_user_def by (drule find_Some_props) simp

lemma credit_rules_eq:
  "(let user1 = (if credits user = 0
                          \<and> (case last_credit_refill user of
                                None \<Rightarrow> False
                              | Some r \<Rightarrow> date now > date r)
                       then user\<lparr>credits := credits user + 10, last_credit_refill := Some now\<rparr>
                       else user);
                    user2 =
                      (if (case last_login_credit user1 of
                             None \<Rightarrow> True
                           | Some l \<Rightarrow> date l \<noteq> date now)
                       then user1\<lparr>credits := credits user1 + 1, last_login_credit := Some now\<rparr>
                       else user1) in f user2) = f (resolved_user now user)"
  by (cases user) (simp add: resolved_user_def refill_rule_fires_def login_bonus_fires_def Let_def)

lemma refresh_commit:
  assumes "token_user tk db = Some user"
  shows "refresh (resolved_user now user) (commit_user (resolved_user now user) db)
           = Inr (resolved_user now user)"
proof -
  let ?v = "resolved_user now user"
  let ?f = "\<lambda>u. if id' u = id' ?v
                    then u\<lparr>credits := credits ?v,
                           last_credit_refill := last_credit_refill ?v,
                           last_login_credit := last_login_credit ?v\<rparr>
                    else u"
  have key: "id' ?v = user_id tk"
    using token_user_id [OF assms] by (simp add: resolved_user_def)
  have "find (\<lambda>u. id' u = id' ?v) (map ?f (users db))
          = map_option ?f (find (\<lambda>u. id' u = id' ?v) (users db))"
    by (rule find_map_same_key) simp
  also have "find (\<lambda>u. id' u = id' ?v) (users db) = Some user"
    using assms by (simp add: key token_user_def)
  also have "map_option ?f (Some user) = Some ?v"
    by (simp add: resolved_user_def)
  finally show ?thesis
    by (simp add: refresh_def commit_user_def)
qed

lemma get_current_user_effect:
  assumes "verify_token_access m nv s db = Inr tk" and "token_user tk db = Some user"
  shows "get_current_user m nv now s db =
           (if is_active user then Inr (resolved_user now user)
            else Inl (HTTPException 403 detail_not_activated bearer_headers),
            store_credit_fields (user_id tk) (resolved_user now user) db)"
proof -
  have key: "id' (resolved_user now user) = user_id tk"
    using token_user_id [OF assms(2)] by (simp add: resolved_user_def)
  have act: "is_active (resolved_user now user) = is_active user"
    by (simp add: resolved_user_def)
  have st: "commit_user (resolved_user now user) db
              = store_credit_fields (user_id tk) (resolved_user now user) db"
    by (simp add: commit_user_def store_credit_fields_def key)
  have rf: "refresh (resolved_user now user)
              (store_credit_fields (user_id tk) (resolved_user now user) db)
              = Inr (resolved_user now user)"
    using refresh_commit [OF assms(2), of now] by (simp only: st)
  show ?thesis
    unfolding get_current_user_def
    by (simp only: assms credit_rules_eq sum.case option.case)
       (simp add: st Let_def rf act)
qed



section \<open>One call of identity resolution\<close>

lemma user_row_store:
  "user_row k (store_credit_fields j v db) =
     map_option (\<lambda>u. if id' u = j
                      then u\<lparr>credits := credits v,
                             last_credit_refill := last_credit_refill v,
                             last_login_credit := last_login_credit v\<rparr>
                      else u) (user_row k db)"
  unfolding user_row_def store_credit_fields_def
  by (simp add: find_map_same_key)

lemma user_row_id: "user_row k db = Some u \<Longrightarrow> id' u = k"
  unfolding user_row_def by (drule find_Some_props) simp

lemma user_row_store_other:
  assumes "j \<noteq> k"
  shows "user_row k (store_credit_fields j v db) = user_row k db"
proof (cases "user_row k db")
  case None
  then show ?thesis by (simp add: user_row_store)
next
  case (Some u)
  with assms user_row_id [OF Some] show ?thesis by (simp add: user_row_store)
qed

lemma user_row_store_owner:
  assumes "user_row k db = Some user"
  shows "user_row k (store_credit_fields k (resolved_user now user) db)
           = Some (resolved_user now user)"
  using assms user_row_id [OF assms]
  by (simp add: user_row_store resolved_user_def)

lemma get_current_user_row:
  "user_row k (snd (get_current_user m nv now s db)) = user_row k db
   \<or> (\<exists>user. user_row k db = Some user
         \<and> user_row k (snd (get_current_user m nv now s db)) = Some (resolved_user now user))"
proof (cases "verify_token_access m nv s db")
  case (Inl e)
  then show ?thesis by (simp add: get_current_user_def)
next
  case (Inr tk)
  show ?thesis
  proof (cases "token_user tk db")
    case None
    with Inr show ?thesis by (simp add: get_current_user_def)
  next
    case (Some user)
    note eff = get_current_user_effect [OF Inr Some, of now]
    show ?thesis
    proof (cases "user_id tk = k")
      case True
      with Some have "user_row k db = Some user"
        by (simp add: token_user_def user_row_def)
      with eff True show ?thesis
        by (simp add: user_row_store_owner)
    next
      case False
      with eff show ?thesis
        by (simp add: user_row_store_other)
    qed
  qed
qed

lemma credit_gain_cases:
  "credits_of k (snd (get_current_user m nv now s db)) - credits_of k db = 0
   \<or> (\<exists>user. user_row k db = Some user
         \<and> user_row k (snd (get_current_user m nv now s db)) = Some (resolved_user now user)
         \<and> credits_of k (snd (get_current_user m nv now s db)) - credits_of k db
             = (if refill_rule_fires now user then 10 else 0)
               + (if login_bonus_fires now user then 1 else 0))"
  using get_current_user_row [of k m nv now s db]
  by (auto simp: credits_of_def resolved_user_def)


lemma settled_same_row:
  assumes "user_row k db' = user_row k db"
  shows "credits_of k db' - credits_of k db = 0"
    and "refill_settled d k db' = refill_settled d k db"
    and "bonus_settled d k db' = bonus_settled d k db"
  using assms by (simp_all add: credits_of_def refill_settled_def bonus_settled_def)

lemma refill_step:
  assumes "date now = d"
  shows "(refill_settled d k db \<longrightarrow>
            refill_settled d k (snd (get_current_user m nv now s db))
            \<and> credits_of k (snd (get_current_user m nv now s db)) - credits_of k db \<noteq> 10
            \<and> credits_of k (snd (get_current_user m nv now s db)) - credits_of k db \<noteq> 11)
         \<and> (credits_of k (snd (get_current_user m nv now s db)) - credits_of k db = 10
            \<or> credits_of k (snd (get_current_user m nv now s db)) - credits_of k db = 11
            \<longrightarrow> refill_settled d k (snd (get_current_user m nv now s db)))"
proof -
  let ?db' = "snd (get_current_user m nv now s db)"
  from get_current_user_row [of k m nv now s db]
  consider (same) "user_row k ?db' = user_row k db"
    | (owner) user where "user_row k db = Some user"
        and "user_row k ?db' = Some (resolved_user now user)"
    by blast
  then show ?thesis
  proof cases
    case same
    from settled_same_row [OF same] show ?thesis by simp
  next
    case owner
    have gain: "credits_of k ?db' - credits_of k db
                  = (if refill_rule_fires now user then 10 else 0)
                    + (if login_bonus_fires now user then 1 else 0)"
      using owner by (simp add: credits_of_def resolved_user_def)
    have before: "refill_settled d k db \<Longrightarrow> \<not> refill_rule_fires now user"
      using owner(1) assms
      by (auto simp: refill_settled_def refill_rule_fires_def split: option.splits)
    have after: "refill_settled d k ?db' \<longleftrightarrow> refill_rule_fires now user \<or> refill_settled d k db"
      using owner assms
      by (auto simp: refill_settled_def resolved_user_def refill_rule_fires_def
               split: option.splits)
    show ?thesis
      using gain before after by (auto split: if_splits)
  qed
qed

lemma bonus_step:
  assumes "date now = d"
  shows "(bonus_settled d k db \<longrightarrow>
            bonus_settled d k (snd (get_current_user m nv now s db))
            \<and> credits_of k (snd (get_current_user m nv now s db)) - credits_of k db \<noteq> 1
            \<and> credits_of k (snd (get_current_user m nv now s db)) - credits_of k db \<noteq> 11)
         \<and> (credits_of k (snd (get_current_user m nv now s db)) - credits_of k db = 1
            \<or> credits_of k (snd (get_current_user m nv now s db)) - credits_of k db = 11
            \<longrightarrow> bonus_settled d k (snd (get_current_user m nv now s db)))"
proof -
  let ?db' = "snd (get_current_user m nv now s db)"
  from get_current_user_row [of k m nv now s db]
  consider (same) "user_row k ?db' = user_row k db"
    | (owner) user where "user_row k db = Some user"
        and "user_row k ?db' = Some (resolved_user now user)"
    by blast
  then show ?thesis
  proof cases
    case same
    from settled_same_row [OF same] show ?thesis by simp
  next
    case owner
    have gain: "credits_of k ?db' - credits_of k db
                  = (if refill_rule_fires now user then 10 else 0)
                    + (if login_bonus_fires now user then 1 else 0)"
      using owner by (simp add: credits_of_def resolved_user_def)
    have before: "bonus_settled d k db \<Longrightarrow> \<not> login_bonus_fires now user"
      using owner(1) assms
      by (auto simp: bonus_settled_def login_bonus_fires_def split: option.splits)
    have after: "bonus_settled d k ?db'"
      using owner assms
      by (auto simp: bonus_settled_def resolved_user_def login_bonus_fires_def
               split: option.splits)
    show ?thesis
      using gain before after by (auto split: if_splits)
  qed
qed

lemma settled_same_timestamps:
  assumes "same_timestamps k db db'"
  shows "refill_settled d k db' = refill_settled d k db"
    and "bonus_settled d k db' = bonus_settled d k db"
proof -
  from assms have r: "map_option last_credit_refill (user_row k db')
                        = map_option last_credit_refill (user_row k db)"
    and l: "map_option last_login_credit (user_row k db')
              = map_option last_login_credit (user_row k db)"
    by (simp_all add: same_timestamps_def)
  show "refill_settled d k db' = refill_settled d k db"
  proof (cases "user_row k db")
    case None
    with r show ?thesis by (simp add: refill_settled_def)
  next
    case (Some u)
    with r obtain u' where "user_row k db' = Some u'"
      and "last_credit_refill u' = last_credit_refill u"
      by auto
    with Some show ?thesis by (simp add: refill_settled_def)
  qed
  show "bonus_settled d k db' = bonus_settled d k db"
  proof (cases "user_row k db")
    case None
    with l show ?thesis by (simp add: bonus_settled_def)
  next
    case (Some u)
    with l obtain u' where "user_row k db' = Some u'"
      and "last_login_credit u' = last_login_credit u"
      by auto
    with Some show ?thesis by (simp add: bonus_settled_def)
  qed
qed

lemma refill_gains_once:
  assumes "day_run m d k events db"
  shows "length (filter (\<lambda>g. g = 10 \<or> g = 11) (credit_gains m k events db)) \<le> 1
         \<and> (refill_settled d k db \<longrightarrow>
              filter (\<lambda>g. g = 10 \<or> g = 11) (credit_gains m k events db) = [])"
  using assms
proof (induction events arbitrary: db)
  case Nil
  then show ?case by simp
next
  case (Cons e events)
  show ?case
  proof (cases e)
    case (Resolve nv now s)
    let ?db' = "snd (get_current_user m nv now s db)"
    from Cons.prems Resolve have d: "date now = d" and rest: "day_run m d k events ?db'"
      by simp_all
    note IH = Cons.IH [OF rest]
    note st = refill_step [OF d, of k db m nv s]
    show ?thesis
      using IH st by (auto simp: Resolve Let_def)
  next
    case (Other db')
    with Cons.prems have same: "same_timestamps k db db'" and rest: "day_run m d k events db'"
      by simp_all
    from Cons.IH [OF rest] settled_same_timestamps(1) [OF same, of d] show ?thesis
      by (simp add: Other)
  qed
qed

lemma bonus_gains_once:
  assumes "day_run m d k events db"
  shows "length (filter (\<lambda>g. g = 1 \<or> g = 11) (credit_gains m k events db)) \<le> 1
         \<and> (bonus_settled d k db \<longrightarrow>
              filter (\<lambda>g. g = 1 \<or> g = 11) (credit_gains m k events db) = [])"
  using assms
proof (induction events arbitrary: db)
  case Nil
  then show ?case by simp
next
  case (Cons e events)
  show ?case
  proof (cases e)
    case (Resolve nv now s)
    let ?db' = "snd (get_current_user m nv now s db)"
    from Cons.prems Resolve have d: "date now = d" and rest: "day_run m d k events ?db'"
      by simp_all
    note IH = Cons.IH [OF rest]
    note st = bonus_step [OF d, of k db m nv s]
    show ?thesis
      using IH st by (auto simp: Resolve Let_def)
  next
    case (Other db')
    with Cons.prems have same: "same_timestamps k db db'" and rest: "day_run m d k events db'"
      by simp_all
    from Cons.IH [OF rest] settled_same_timestamps(2) [OF same, of d] show ?thesis
      by (simp add: Other)
  qed
qed

lemma credit_gains_range: "set (credit_gains m k events db) \<subseteq> {0, 1, 10, 11}"
proof (induction events arbitrary: db)
  case Nil
  then show ?case by simp
next
  case (Cons e events)
  show ?case
  proof (cases e)
    case (Resolve nv now s)
    show ?thesis
      using Cons.IH [of "snd (get_current_user m nv now s db)"]
            credit_gain_cases [of k m nv now s db]
      by (auto simp: Resolve Let_def split: if_splits)
  next
    case (Other db')
    with Cons.IH [of db'] show ?thesis by simp
  qed
qed

section \<open>Token verification\<close>

text \<open>
  C4. Token verification returns a token row exactly when some stored row carries the
  presented string and was created no earlier than \<open>now - max_age\<close> (the bound is
  inclusive); the row returned is such a row; in every other case the result is the one
  error 401 "Token invalid or expired", whatever the reason.
\<close>

theorem verify_token_access_iff:
  "((\<exists>t. verify_token_access m now s db = Inr t) \<longleftrightarrow>
      (\<exists>r\<in>set (tokens db). token r = s \<and> created_at r \<ge> now - timedelta_minutes m))
   \<and> (\<forall>t. verify_token_access m now s db = Inr t \<longrightarrow>
          t \<in> set (tokens db) \<and> token t = s \<and> created_at t \<ge> now - timedelta_minutes m)
   \<and> (\<forall>r\<in>set (tokens db). token r = s \<and> created_at r = now - timedelta_minutes m \<longrightarrow>
          (\<exists>t. verify_token_access m now s db = Inr t))
   \<and> ((\<forall>t. verify_token_access m now s db \<noteq> Inr t) \<longrightarrow>
          verify_token_access m now s db =
            Inl (HTTPException 401 ''Token invalid or expired'' [(''WWW-Authenticate'', ''Bearer'')]))"
proof -
  let ?P = "\<lambda>t. token t = s \<and> created_at t \<ge> now - timedelta_minutes m"
  show ?thesis
  proof (cases "find ?P (tokens db)")
    case None
    then have "\<forall>x\<in>set (tokens db). \<not> ?P x"
      by (simp add: find_None_iff_no_match)
    with None show ?thesis
      by (auto simp: verify_token_access_def bearer_headers_def)
  next
    case (Some t)
    then have "t \<in> set (tokens db) \<and> ?P t"
      by (rule find_Some_props)
    with Some show ?thesis
      by (auto simp: verify_token_access_def)
  qed
qed

theorem verify_token_access_iff_witness:
  "(\<exists>r\<in>set (tokens example_db).
       token r = ''abc'' \<and> created_at r = 88200000000 - timedelta_minutes 30)
   \<and> verify_token_access 30 88200000000 ''abc'' example_db = Inr token_abc
   \<and> (\<forall>t. verify_token_access 30 88200000001 ''abc'' example_db \<noteq> Inr t)
   \<and> verify_token_access 30 88200000001 ''abc'' example_db
       = Inl (HTTPException 401 ''Token invalid or expired'' [(''WWW-Authenticate'', ''Bearer'')])"
proof -
  have row: "token_abc \<in> set (tokens example_db)"
    by (simp add: example_db_def)
  have boundary: "token token_abc = ''abc''
                  \<and> created_at token_abc = 88200000000 - timedelta_minutes 30"
    by (simp add: token_abc_def timedelta_minutes_def)
  have accepted: "\<exists>t. verify_token_access 30 88200000000 ''abc'' example_db = Inr t"
    using verify_token_access_iff [of 30 88200000000 "''abc''" example_db] row boundary
    by blast
  have res: "verify_token_access 30 88200000000 ''abc'' example_db = Inr token_abc"
    by (simp add: verify_token_access_def example_db_def token_abc_def timedelta_minutes_def)
  have expired: "\<forall>t. verify_token_access 30 88200000001 ''abc'' example_db \<noteq> Inr t"
    by (simp add: verify_token_access_def example_db_def token_abc_def token_xyz_def
                  token_def_def token_adm_def timedelta_minutes_def)
  have msg: "verify_token_access 30 88200000001 ''abc'' example_db
       = Inl (HTTPException 401 ''Token invalid or expired'' [(''WWW-Authenticate'', ''Bearer'')])"
    using verify_token_access_iff [of 30 88200000001 "''abc''" example_db] expired
    by blast
  from row boundary accepted res expired msg show ?thesis
    by blast
qed

section \<open>At most one refill and one login bonus per day\<close>

text \<open>
  C1. Take any run on the calendar day \<open>d\<close>: calls of identity resolution, with whatever
  tokens, succeeding or failing, whose credit rules read the clock on day \<open>d\<close>, and between
  them anything else that may happen to the database, credits falling back to zero
  included, as long as it leaves the two credit timestamps of user \<open>k\<close> alone. Then at
  most one call raises the credits of \<open>k\<close> by the refill (a gain of 10 or 11), at most
  one call raises them by the login bonus (a gain of 1 or 11), and no call changes them
  by any other amount than 0, 1, 10 or 11. If at the start the last refill of \<open>k\<close> is
  already on day \<open>d\<close>, no call of the run refills; if the last login credit of \<open>k\<close> is
  already on day \<open>d\<close>, no call of the run gives the bonus.
\<close>

theorem credit_grants_at_most_once_per_day:
  assumes "day_run m d k events db"
  shows "length (filter (\<lambda>g. g = 10 \<or> g = 11) (credit_gains m k events db)) \<le> 1
         \<and> length (filter (\<lambda>g. g = 1 \<or> g = 11) (credit_gains m k events db)) \<le> 1
         \<and> set (credit_gains m k events db) \<subseteq> {0, 1, 10, 11}
         \<and> (refill_settled d k db \<longrightarrow>
               filter (\<lambda>g. g = 10 \<or> g = 11) (credit_gains m k events db) = [])
         \<and> (bonus_settled d k db \<longrightarrow>
               filter (\<lambda>g. g = 1 \<or> g = 11) (credit_gains m k events db) = [])"
  using refill_gains_once [OF assms] bonus_gains_once [OF assms]
        credit_gains_range [of m k events db]
  by blast

theorem credit_grants_at_most_once_per_day_witness:
  "day_run 30 1 1 example_events example_db
   \<and> credit_gains 30 1 example_events example_db = [11, 0, 0]
   \<and> length (filter (\<lambda>g. g = 10 \<or> g = 11) (credit_gains 30 1 example_events example_db)) \<le> 1
   \<and> length (filter (\<lambda>g. g = 1 \<or> g = 11) (credit_gains 30 1 example_events example_db)) \<le> 1
   \<and> credits_of 1 example_spent = 0
   \<and> refill_settled 1 1 example_spent
   \<and> bonus_settled 1 1 example_spent
   \<and> day_run 30 1 1 (tl (tl example_events)) example_spent
   \<and> filter (\<lambda>g. g = 10 \<or> g = 11) (credit_gains 30 1 (tl (tl example_events)) example_spent)
       = []
   \<and> filter (\<lambda>g. g = 1 \<or> g = 11) (credit_gains 30 1 (tl (tl example_events)) example_spent)
       = []"
proof -
  have run: "day_run 30 1 1 example_events example_db"
    by code_simp
  have gains: "credit_gains 30 1 example_events example_db = [11, 0, 0]"
    by code_simp
  have spent: "credits_of 1 example_spent = 0"
    by code_simp
  have settled: "refill_settled 1 1 example_spent" "bonus_settled 1 1 example_spent"
    by code_simp+
  have rest: "day_run 30 1 1 (tl (tl example_events)) example_spent"
    by code_simp
  note whole = credit_grants_at_most_once_per_day [OF run]
  note later = credit_grants_at_most_once_per_day [OF rest]
  have once: "length (filter (\<lambda>g. g = 10 \<or> g = 11)
                 (credit_gains 30 1 example_events example_db)) \<le> 1"
    "length (filter (\<lambda>g. g = 1 \<or> g = 11) (credit_gains 30 1 example_events example_db)) \<le> 1"
    using whole [THEN conjunct1] whole [THEN conjunct2, THEN conjunct1] .
  have no_refill: "filter (\<lambda>g. g = 10 \<or> g = 11)
                     (credit_gains 30 1 (tl (tl example_events)) example_spent) = []"
    using later [THEN conjunct2, THEN conjunct2, THEN conjunct2, THEN conjunct1, THEN mp,
                 OF settled(1)] .
  have no_bonus: "filter (\<lambda>g. g = 1 \<or> g = 11)
                    (credit_gains 30 1 (tl (tl example_events)) example_spent) = []"
    using later [THEN conjunct2, THEN conjunct2, THEN conjunct2, THEN conjunct2, THEN mp,
                 OF settled(2)] .
  from run gains once spent settled rest no_refill no_bonus show ?thesis
    by (intro conjI)
qed

section \<open>The credit rules in one call\<close>

lemma token_user_store_owner:
  assumes "token_user tk db = Some user"
  shows "token_user tk (store_credit_fields (user_id tk) (resolved_user now user) db)
           = Some (resolved_user now user)"
proof -
  from assms have "user_row (user_id tk) db = Some user"
    by (simp add: token_user_def user_row_def)
  from user_row_store_owner [OF this, of now] show ?thesis
    by (simp add: token_user_def user_row_def)
qed

lemma owner_after_call:
  assumes "verify_token_access m nv s db = Inr tk" and "token_user tk db = Some user"
  shows "token_user tk (snd (get_current_user m nv now s db)) = Some (resolved_user now user)"
  using get_current_user_effect [OF assms, of now] token_user_store_owner [OF assms(2), of now]
  by simp

lemma example_lookups:
  "verify_token_access 30 86400000001 ''abc'' example_db = Inr token_abc"
  "verify_token_access 30 86400000001 ''xyz'' example_db = Inr token_xyz"
  "verify_token_access 30 86400000001 ''adm'' example_db = Inr token_adm"
  "token_user token_abc example_db = Some example_user"
  "token_user token_xyz example_db = Some example_other"
  "token_user token_adm example_db = Some example_admin"
  by (simp_all add: verify_token_access_def token_user_def example_db_def token_abc_def
        token_xyz_def token_def_def token_adm_def example_user_def example_other_def
        example_admin_def timedelta_minutes_def)

text \<open>
  C2. In a call of identity resolution with a valid token whose owner exists, the owner's
  row afterwards shows the refill exactly when the owner had zero credits and a last
  refill on an earlier day: then the last refill is the current time and the credits
  grew by 10 (plus the login bonus, if that fired as well); otherwise the last refill is
  as before and nothing but the login bonus is added. A user whose last refill is unset
  is not refilled, whatever the credits.
\<close>

theorem credit_refill_rule:
  assumes "verify_token_access m nv s db = Inr tk" and "token_user tk db = Some user"
  shows "\<exists>user'. token_user tk (snd (get_current_user m nv now s db)) = Some user'
           \<and> (refill_rule_fires now user \<longleftrightarrow>
                 credits user = 0
                 \<and> (\<exists>r. last_credit_refill user = Some r \<and> date r < date now))
           \<and> last_credit_refill user'
               = (if refill_rule_fires now user then Some now else last_credit_refill user)
           \<and> credits user'
               = credits user + (if refill_rule_fires now user then 10 else 0)
                   + (if login_bonus_fires now user then 1 else 0)
           \<and> (last_credit_refill user = None \<longrightarrow>
                 \<not> refill_rule_fires now user \<and> last_credit_refill user' = None)"
proof -
  have fires: "refill_rule_fires now user \<longleftrightarrow>
                 credits user = 0
                 \<and> (\<exists>r. last_credit_refill user = Some r \<and> date r < date now)"
    by (cases "last_credit_refill user") (simp_all add: refill_rule_fires_def)
  have never: "last_credit_refill user = None \<Longrightarrow> \<not> refill_rule_fires now user"
    by (simp add: refill_rule_fires_def)
  show ?thesis
    using owner_after_call [OF assms, of now] fires never
    by (simp add: resolved_user_def)
qed

theorem credit_refill_rule_witness:
  "verify_token_access 30 86400000001 ''abc'' example_db = Inr token_abc
   \<and> token_user token_abc example_db = Some example_user
   \<and> (\<exists>user'. token_user token_abc
                   (snd (get_current_user 30 86400000001 86400000002 ''abc'' example_db))
                 = Some user'
               \<and> last_credit_refill user' = Some 86400000002 \<and> credits user' = 11)
   \<and> verify_token_access 30 86400000001 ''xyz'' example_db = Inr token_xyz
   \<and> token_user token_xyz example_db = Some example_other
   \<and> credits example_other = 0 \<and> last_credit_refill example_other = None
   \<and> (\<exists>user'. token_user token_xyz
                   (snd (get_current_user 30 86400000001 86400000002 ''xyz'' example_db))
                 = Some user'
               \<and> last_credit_refill user' = None \<and> credits user' = 0)"
proof -
  have f1: "refill_rule_fires 86400000002 example_user"
           "login_bonus_fires 86400000002 example_user"
    by (simp_all add: refill_rule_fires_def login_bonus_fires_def example_user_def date_def)
  have f2: "credits example_other = 0" "last_credit_refill example_other = None"
           "\<not> refill_rule_fires 86400000002 example_other"
           "\<not> login_bonus_fires 86400000002 example_other"
    by (simp_all add: refill_rule_fires_def login_bonus_fires_def example_other_def date_def)
  from credit_refill_rule [OF example_lookups(1) example_lookups(4), of 86400000002] f1
  have r1: "\<exists>user'. token_user token_abc
                   (snd (get_current_user 30 86400000001 86400000002 ''abc'' example_db))
                 = Some user'
               \<and> last_credit_refill user' = Some 86400000002 \<and> credits user' = 11"
    by (auto simp: example_user_def)
  from credit_refill_rule [OF example_lookups(2) example_lookups(5), of 86400000002] f2
  have r2: "\<exists>user'. token_user token_xyz
                   (snd (get_current_user 30 86400000001 86400000002 ''xyz'' example_db))
                 = Some user'
               \<and> last_credit_refill user' = None \<and> credits user' = 0"
    by auto
  from r1 r2 f2(1,2) example_lookups show ?thesis
    by blast
qed

text \<open>
  C3. In the same call the login bonus fires exactly when the owner's last login credit
  is unset or lies on another day than the current time: then the last login credit is
  the current time and one credit is added, on top of what the refill added, of which it
  is independent. In particular a user with zero credits, a refill on the previous day
  and no login credit ends with 11 credits and both timestamps at the current time.
\<close>

theorem login_bonus_rule:
  assumes "verify_token_access m nv s db = Inr tk" and "token_user tk db = Some user"
  shows "\<exists>user'. token_user tk (snd (get_current_user m nv now s db)) = Some user'
           \<and> (login_bonus_fires now user \<longleftrightarrow>
                 last_login_credit user = None
                 \<or> (\<exists>l. last_login_credit user = Some l \<and> date l \<noteq> date now))
           \<and> last_login_credit user'
               = (if login_bonus_fires now user then Some now else last_login_credit user)
           \<and> credits user'
               = credits user + (if refill_rule_fires now user then 10 else 0)
                   + (if login_bonus_fires now user then 1 else 0)
           \<and> (credits user = 0
                \<and> (\<exists>r. last_credit_refill user = Some r \<and> date r + 1 = date now)
                \<and> last_login_credit user = None
                \<longrightarrow> credits user' = 11 \<and> last_credit_refill user' = Some now
                      \<and> last_login_credit user' = Some now)"
proof -
  have fires: "login_bonus_fires now user \<longleftrightarrow>
                 last_login_credit user = None
                 \<or> (\<exists>l. last_login_credit user = Some l \<and> date l \<noteq> date now)"
    by (cases "last_login_credit user") (simp_all add: login_bonus_fires_def)
  have scenario: "refill_rule_fires now user \<and> login_bonus_fires now user"
    if "credits user = 0"
      and "\<exists>r. last_credit_refill user = Some r \<and> date r + 1 = date now"
      and "last_login_credit user = None"
    using that by (auto simp: refill_rule_fires_def login_bonus_fires_def)
  show ?thesis
    using owner_after_call [OF assms, of now] fires scenario
    by (auto simp: resolved_user_def)
qed

theorem login_bonus_rule_witness:
  "verify_token_access 30 86400000001 ''abc'' example_db = Inr token_abc
   \<and> token_user token_abc example_db = Some example_user
   \<and> credits example_user = 0 \<and> last_credit_refill example_user = Some 0
   \<and> date 0 + 1 = date 86400000002 \<and> last_login_credit example_user = None
   \<and> (\<exists>user'. token_user token_abc
                   (snd (get_current_user 30 86400000001 86400000002 ''abc'' example_db))
                 = Some user'
               \<and> credits user' = 11 \<and> last_credit_refill user' = Some 86400000002
               \<and> last_login_credit user' = Some 86400000002)
   \<and> verify_token_access 30 86400000001 ''adm'' example_db = Inr token_adm
   \<and> token_user token_adm example_db = Some example_admin
   \<and> (\<exists>user'. token_user token_adm
                   (snd (get_current_user 30 86400000001 86400000002 ''adm'' example_db))
                 = Some user'
               \<and> credits user' = 3 \<and> last_login_credit user' = Some 86400000000)"
proof -
  have f1: "credits example_user = 0" "last_credit_refill example_user = Some 0"
           "date 0 + 1 = date 86400000002" "last_login_credit example_user = None"
    by (simp_all add: example_user_def date_def)
  have f3: "\<not> refill_rule_fires 86400000002 example_admin"
           "\<not> login_bonus_fires 86400000002 example_admin"
           "credits example_admin = 3" "last_login_credit example_admin = Some 86400000000"
    by (simp_all add: refill_rule_fires_def login_bonus_fires_def example_admin_def date_def)
  from login_bonus_rule [OF example_lookups(1) example_lookups(4), of 86400000002] f1
  have r1: "\<exists>user'. token_user token_abc
                   (snd (get_current_user 30 86400000001 86400000002 ''abc'' example_db))
                 = Some user'
               \<and> credits user' = 11 \<and> last_credit_refill user' = Some 86400000002
               \<and> last_login_credit user' = Some 86400000002"
    by auto
  from login_bonus_rule [OF example_lookups(3) example_lookups(6), of 86400000002] f3
  have r3: "\<exists>user'. token_user token_adm
                   (snd (get_current_user 30 86400000001 86400000002 ''adm'' example_db))
                 = Some user'
               \<and> credits user' = 3 \<and> last_login_credit user' = Some 86400000000"
    by auto
  from r1 r3 f1 example_lookups show ?thesis
    by blast
qed

section \<open>Inactive accounts\<close>

text \<open>
  C5. A call with a valid token whose owner is not active raises the 403, and the
  database it leaves behind is the one after the commit: the owner's row carries the
  credits and timestamps the two rules produced.
\<close>

theorem inactive_user_forbidden_after_commit:
  assumes "verify_token_access m nv s db = Inr tk" and "token_user tk db = Some user"
    and "\<not> is_active user"
  shows "fst (get_current_user m nv now s db)
           = Inl (HTTPException 403 detail_not_activated [(''WWW-Authenticate'', ''Bearer'')])
         \<and> snd (get_current_user m nv now s db) = commit_user (resolved_user now user) db
         \<and> token_user tk (snd (get_current_user m nv now s db)) = Some (resolved_user now user)
         \<and> credits (resolved_user now user)
             = credits user + (if refill_rule_fires now user then 10 else 0)
                 + (if login_bonus_fires now user then 1 else 0)"
proof -
  have key: "id' (resolved_user now user) = user_id tk"
    using token_user_id [OF assms(2)] by (simp add: resolved_user_def)
  have st: "commit_user (resolved_user now user) db
              = store_credit_fields (user_id tk) (resolved_user now user) db"
    by (simp add: commit_user_def store_credit_fields_def key)
  have call: "get_current_user m nv now s db
                = (Inl (HTTPException 403 detail_not_activated bearer_headers),
                   commit_user (resolved_user now user) db)"
    using get_current_user_effect [OF assms(1,2), of now] assms(3) by (simp only: st if_False)
  have gain: "credits (resolved_user now user)
             = credits user + (if refill_rule_fires now user then 10 else 0)
                 + (if login_bonus_fires now user then 1 else 0)"
    by (simp add: resolved_user_def)
  from owner_after_call [OF assms(1,2), of now] call gain show ?thesis
    by (simp add: bearer_headers_def)
qed

theorem inactive_user_forbidden_after_commit_witness:
  "verify_token_access 30 86400000001 ''xyz'' example_db = Inr token_xyz
   \<and> token_user token_xyz example_db = Some example_other
   \<and> is_active example_other = False
   \<and> credits_of 2 example_db = 0
   \<and> fst (get_current_user 30 86400000001 172800000005 ''xyz'' example_db)
       = Inl (HTTPException 403 detail_not_activated [(''WWW-Authenticate'', ''Bearer'')])
   \<and> token_user token_xyz (snd (get_current_user 30 86400000001 172800000005 ''xyz'' example_db))
       = Some (example_other\<lparr>credits := 1, last_login_credit := Some 172800000005\<rparr>)
   \<and> credits_of 2 (snd (get_current_user 30 86400000001 172800000005 ''xyz'' example_db)) = 1"
proof -
  have inactive: "\<not> is_active example_other"
    by (simp add: example_other_def)
  have before: "credits_of 2 example_db = 0"
    by (simp add: credits_of_def user_row_def example_db_def example_user_def
                  example_other_def)
  have res: "resolved_user 172800000005 example_other
               = example_other\<lparr>credits := 1, last_login_credit := Some 172800000005\<rparr>"
    by (simp add: resolved_user_def refill_rule_fires_def login_bonus_fires_def
                  example_other_def date_def)
  note main = inactive_user_forbidden_after_commit
               [OF example_lookups(2) example_lookups(5) inactive, of 172800000005]
  have after: "token_user token_xyz
        (snd (get_current_user 30 86400000001 172800000005 ''xyz'' example_db))
       = Some (example_other\<lparr>credits := 1, last_login_credit := Some 172800000005\<rparr>)"
    using main [THEN conjunct2, THEN conjunct2, THEN conjunct1] by (simp only: res)
  have forbidden: "fst (get_current_user 30 86400000001 172800000005 ''xyz'' example_db)
       = Inl (HTTPException 403 detail_not_activated [(''WWW-Authenticate'', ''Bearer'')])"
    using main [THEN conjunct1] .
  from after have credits_after:
    "credits_of 2 (snd (get_current_user 30 86400000001 172800000005 ''xyz'' example_db)) = 1"
    by (simp add: credits_of_def user_row_def token_user_def token_xyz_def)
  from forbidden inactive before after credits_after example_lookups show ?thesis
    by blast
qed

section \<open>What identity resolution leaves alone\<close>

lemma map_credit_fields_frame:
  fixes k c r l
  defines "f \<equiv> \<lambda>u. if id' u = k
                      then u\<lparr>credits := c, last_credit_refill := r, last_login_credit := l\<rparr>
                      else u"
  shows "map id' (map f xs) = map id' xs"
    and "map email (map f xs) = map email xs"
    and "map hashed_password (map f xs) = map hashed_password xs"
    and "map is_active (map f xs) = map is_active xs"
    and "map is_admin (map f xs) = map is_admin xs"
  by (induction xs) (simp_all add: f_def)

lemma map_credit_fields_absent:
  assumes "find (\<lambda>u. id' u = k) xs = None"
  shows "map (\<lambda>u. if id' u = k
                   then u\<lparr>credits := c, last_credit_refill := r, last_login_credit := l\<rparr>
                   else u) xs = xs"
proof -
  from assms have "\<forall>u\<in>set xs. id' u \<noteq> k"
    by (simp add: find_None_iff_no_match)
  then show ?thesis
    by (induction xs) simp_all
qed

lemma get_current_user_shape:
  "case verify_token_access m nv s db of
     Inl e \<Rightarrow> snd (get_current_user m nv now s db) = db
   | Inr tk \<Rightarrow>
       \<exists>c r l. snd (get_current_user m nv now s db)
                 = db\<lparr>users :=
                        map (\<lambda>u. if id' u = user_id tk
                                  then u\<lparr>credits := c, last_credit_refill := r,
                                         last_login_credit := l\<rparr>
                                  else u) (users db)\<rparr>"
proof (cases "verify_token_access m nv s db")
  case (Inl e)
  then show ?thesis by (simp add: get_current_user_def)
next
  case (Inr tk)
  show ?thesis
  proof (cases "token_user tk db")
    case None
    then have "find (\<lambda>u. id' u = user_id tk) (users db) = None"
      by (simp add: token_user_def)
    from map_credit_fields_absent [OF this, where c = 0 and r = None and l = None]
    have "snd (get_current_user m nv now s db)
            = db\<lparr>users :=
                   map (\<lambda>u. if id' u = user_id tk
                             then u\<lparr>credits := 0, last_credit_refill := None,
                                    last_login_credit := None\<rparr>
                             else u) (users db)\<rparr>"
      using Inr None by (simp add: get_current_user_def)
    with Inr show ?thesis by auto
  next
    case (Some user)
    from get_current_user_effect [OF Inr Some, of now] Inr show ?thesis
      by (auto simp: store_credit_fields_def)
  qed
qed

text \<open>
  C9. Whatever the token and the database, succeeding or failing, a call of identity
  resolution leaves the token table as it was, and the user table keeps its rows with
  their keys, emails, password hashes and the two flags. When token verification fails
  the database is unchanged; when it succeeds, the database differs at most in the three
  credit columns of the rows whose key is the token's owner.
\<close>

theorem get_current_user_frame:
  "tokens (snd (get_current_user m nv now s db)) = tokens db
   \<and> map id' (users (snd (get_current_user m nv now s db))) = map id' (users db)
   \<and> map email (users (snd (get_current_user m nv now s db))) = map email (users db)
   \<and> map hashed_password (users (snd (get_current_user m nv now s db)))
       = map hashed_password (users db)
   \<and> map is_active (users (snd (get_current_user m nv now s db))) = map is_active (users db)
   \<and> map is_admin (users (snd (get_current_user m nv now s db))) = map is_admin (users db)
   \<and> (case verify_token_access m nv s db of
         Inl e \<Rightarrow> snd (get_current_user m nv now s db) = db
       | Inr tk \<Rightarrow>
           \<exists>c r l. snd (get_current_user m nv now s db)
                     = db\<lparr>users :=
                            map (\<lambda>u. if id' u = user_id tk
                                      then u\<lparr>credits := c, last_credit_refill := r,
                                             last_login_credit := l\<rparr>
                                      else u) (users db)\<rparr>)"
proof (cases "verify_token_access m nv s db")
  case (Inl e)
  with get_current_user_shape [where m = m and nv = nv and s = s and db = db and now = now] show ?thesis by simp
next
  case (Inr tk)
  with get_current_user_shape [where m = m and nv = nv and s = s and db = db and now = now]
  obtain c r l where shape: "snd (get_current_user m nv now s db)
                 = db\<lparr>users :=
                        map (\<lambda>u. if id' u = user_id tk
                                  then u\<lparr>credits := c, last_credit_refill := r,
                                         last_login_credit := l\<rparr>
                                  else u) (users db)\<rparr>"
    by auto
  have frame: "tokens (snd (get_current_user m nv now s db)) = tokens db"
    "map id' (users (snd (get_current_user m nv now s db))) = map id' (users db)"
    "map email (users (snd (get_current_user m nv now s db))) = map email (users db)"
    "map hashed_password (users (snd (get_current_user m nv now s db)))
       = map hashed_password (users db)"
    "map is_active (users (snd (get_current_user m nv now s db))) = map is_active (users db)"
    "map is_admin (users (snd (get_current_user m nv now s db))) = map is_admin (users db)"
    unfolding shape by (simp_all add: map_credit_fields_frame del: map_map)
  from frame shape Inr show ?thesis
    by (simp only: sum.case) blast
qed

section \<open>Administrator resolution\<close>

text \<open>
  C10. With a valid token whose owner exists, the administrator dependency leaves the
  database exactly as identity resolution does, that is after the commit of the credit
  rules; it raises the 403 of identity resolution for an inactive owner, otherwise the
  403 "Not authorized" when the owner is no administrator, and otherwise returns the
  very user identity resolution returned.
\<close>

theorem admin_resolution_after_identity_resolution:
  assumes "verify_token_access m nv s db = Inr tk" and "token_user tk db = Some user"
  shows "snd (depends_get_current_admin m nv now s db) = snd (get_current_user m nv now s db)
         \<and> snd (depends_get_current_admin m nv now s db)
             = commit_user (resolved_user now user) db
         \<and> token_user tk (snd (depends_get_current_admin m nv now s db))
             = Some (resolved_user now user)
         \<and> fst (get_current_user m nv now s db)
             = (if is_active user then Inr (resolved_user now user)
                else Inl (HTTPException 403 detail_not_activated
                            [(''WWW-Authenticate'', ''Bearer'')]))
         \<and> fst (depends_get_current_admin m nv now s db)
             = (if \<not> is_active user
                then Inl (HTTPException 403 detail_not_activated
                            [(''WWW-Authenticate'', ''Bearer'')])
                else if \<not> is_admin user
                then Inl (HTTPException 403 ''Not authorized. admin privileges required.''
                            [(''WWW-Authenticate'', ''Bearer'')])
                else Inr (resolved_user now user))"
proof -
  have key: "id' (resolved_user now user) = user_id tk"
    using token_user_id [OF assms(2)] by (simp add: resolved_user_def)
  have st: "store_credit_fields (user_id tk) (resolved_user now user) db
              = commit_user (resolved_user now user) db"
    by (simp add: commit_user_def store_credit_fields_def key)
  have adm: "is_admin (resolved_user now user) = is_admin user"
    by (simp add: resolved_user_def)
  have call: "get_current_user m nv now s db
                = (if is_active user then Inr (resolved_user now user)
                   else Inl (HTTPException 403 detail_not_activated bearer_headers),
                   commit_user (resolved_user now user) db)"
    using get_current_user_effect [OF assms, of now] by (simp only: st)
  have dep: "depends_get_current_admin m nv now s db
               = (if \<not> is_active user
                  then Inl (HTTPException 403 detail_not_activated bearer_headers)
                  else if \<not> is_admin user
                  then Inl (HTTPException 403 ''Not authorized. admin privileges required.''
                              bearer_headers)
                  else Inr (resolved_user now user),
                  commit_user (resolved_user now user) db)"
    by (simp add: depends_get_current_admin_def call get_current_admin_def adm)
  have own: "token_user tk (commit_user (resolved_user now user) db)
               = Some (resolved_user now user)"
    using owner_after_call [OF assms, of now] by (simp add: call)
  show ?thesis
    by (simp add: dep call own bearer_headers_def)
qed

theorem admin_resolution_after_identity_resolution_witness:
  "verify_token_access 30 86400000001 ''abc'' example_db = Inr token_abc
   \<and> token_user token_abc example_db = Some example_user
   \<and> is_admin example_user = False
   \<and> fst (depends_get_current_admin 30 86400000001 86400000002 ''abc'' example_db)
       = Inl (HTTPException 403 ''Not authorized. admin privileges required.''
                [(''WWW-Authenticate'', ''Bearer'')])
   \<and> token_user token_abc
         (snd (depends_get_current_admin 30 86400000001 86400000002 ''abc'' example_db))
       = Some (example_user\<lparr>credits := 11, last_credit_refill := Some 86400000002,
                             last_login_credit := Some 86400000002\<rparr>)
   \<and> verify_token_access 30 86400000001 ''adm'' example_db = Inr token_adm
   \<and> token_user token_adm example_db = Some example_admin
   \<and> is_admin example_admin = True
   \<and> fst (depends_get_current_admin 30 86400000001 172800000005 ''adm'' example_db)
       = Inr (example_admin\<lparr>credits := 4, last_login_credit := Some 172800000005\<rparr>)
   \<and> fst (get_current_user 30 86400000001 172800000005 ''adm'' example_db)
       = Inr (example_admin\<lparr>credits := 4, last_login_credit := Some 172800000005\<rparr>)"
proof -
  have u1: "is_active example_user" "\<not> is_admin example_user"
    by (simp_all add: example_user_def)
  have u3: "is_active example_admin" "is_admin example_admin"
    by (simp_all add: example_admin_def)
  have r1: "resolved_user 86400000002 example_user
              = example_user\<lparr>credits := 11, last_credit_refill := Some 86400000002,
                               last_login_credit := Some 86400000002\<rparr>"
    by (simp add: resolved_user_def refill_rule_fires_def login_bonus_fires_def
                  example_user_def date_def)
  have r3: "resolved_user 172800000005 example_admin
              = example_admin\<lparr>credits := 4, last_login_credit := Some 172800000005\<rparr>"
    by (simp add: resolved_user_def refill_rule_fires_def login_bonus_fires_def
                  example_admin_def date_def)
  note a1 = admin_resolution_after_identity_resolution
              [OF example_lookups(1) example_lookups(4), of 86400000002]
  note a3 = admin_resolution_after_identity_resolution
              [OF example_lookups(3) example_lookups(6), of 172800000005]
  have d1: "fst (depends_get_current_admin 30 86400000001 86400000002 ''abc'' example_db)
       = Inl (HTTPException 403 ''Not authorized. admin privileges required.''
                [(''WWW-Authenticate'', ''Bearer'')])"
    using a1 u1 by simp
  have s1: "token_user token_abc
         (snd (depends_get_current_admin 30 86400000001 86400000002 ''abc'' example_db))
       = Some (example_user\<lparr>credits := 11, last_credit_refill := Some 86400000002,
                             last_login_credit := Some 86400000002\<rparr>)"
    using a1 [THEN conjunct2, THEN conjunct2, THEN conjunct1] by (simp only: r1)
  have d3: "fst (depends_get_current_admin 30 86400000001 172800000005 ''adm'' example_db)
       = Inr (example_admin\<lparr>credits := 4, last_login_credit := Some 172800000005\<rparr>)"
    using a3 u3 by (simp add: r3)
  have g3: "fst (get_current_user 30 86400000001 172800000005 ''adm'' example_db)
       = Inr (example_admin\<lparr>credits := 4, last_login_credit := Some 172800000005\<rparr>)"
    using a3 u3 by (simp add: r3)
  from d1 s1 d3 g3 u1 u3 example_lookups show ?thesis
    by simp
qed

section \<open>Login\<close>

lemma create_database_token_cases:
  "create_database_token rt now uid db =
     (if rt \<in> token ` set (tokens db) then (Inl IntegrityError, db)
      else (Inr \<lparr>token = rt, user_id = uid, created_at = now\<rparr>,
            db\<lparr>tokens := tokens db @ [\<lparr>token = rt, user_id = uid, created_at = now\<rparr>]\<rparr>))"
  by (simp add: create_database_token_def add_token_def Let_def)

lemma login_found:
  assumes "find (\<lambda>u. email u = username) (users db) = Some user"
  shows "login vp rt now username password db =
           (if \<not> vp password (hashed_password user)
            then (Inl (HTTPException 401 ''Passwords do not match'' bearer_headers), db)
            else if \<not> is_active user
            then (Inl (HTTPException 403
                    ''Account not activated. Please check your email and activate your account.''
                    bearer_headers), db)
            else if rt \<in> token ` set (tokens db)
            then (Inl IntegrityError, db)
            else (Inr \<lparr>access_token = rt, token_type = ''bearer''\<rparr>,
                  db\<lparr>tokens := tokens db
                         @ [\<lparr>token = rt, user_id = id' user, created_at = now\<rparr>]\<rparr>))"
  using assms by (simp add: login_def create_database_token_cases)

lemma login_not_found:
  assumes "find (\<lambda>u. email u = username) (users db) = None"
  shows "login vp rt now username password db =
           (Inl (HTTPException 400 ''User does not exist'' bearer_headers), db)"
  using assms by (simp add: login_def)

text \<open>
  C7. A login whose email matches no user fails with 400 "User does not exist". When a
  user matches (the first such row), a failed password check gives 401, a passed check on
  an inactive account gives 403, and otherwise the token is stored and returned with
  token type "bearer" (unless storage rejects the random string as a duplicate). Every
  failure leaves the database, and so the token table, as it was; a successful login
  means that the user was found, the password verified and the account active, and
  appends exactly the one new token row.
\<close>

theorem login_outcomes:
  "((\<forall>u\<in>set (users db). email u \<noteq> username) \<longrightarrow>
      login vp rt now username password db =
        (Inl (HTTPException 400 ''User does not exist'' [(''WWW-Authenticate'', ''Bearer'')]),
         db))
   \<and> (\<forall>user. find (\<lambda>u. email u = username) (users db) = Some user \<longrightarrow>
        login vp rt now username password db =
          (if \<not> vp password (hashed_password user)
           then (Inl (HTTPException 401 ''Passwords do not match''
                        [(''WWW-Authenticate'', ''Bearer'')]), db)
           else if \<not> is_active user
           then (Inl (HTTPException 403
                   ''Account not activated. Please check your email and activate your account.''
                   [(''WWW-Authenticate'', ''Bearer'')]), db)
           else if rt \<in> token ` set (tokens db)
           then (Inl IntegrityError, db)
           else (Inr \<lparr>access_token = rt, token_type = ''bearer''\<rparr>,
                 db\<lparr>tokens := tokens db
                        @ [\<lparr>token = rt, user_id = id' user, created_at = now\<rparr>]\<rparr>)))
   \<and> (\<forall>e. fst (login vp rt now username password db) = Inl e \<longrightarrow>
          snd (login vp rt now username password db) = db)
   \<and> (\<forall>r. fst (login vp rt now username password db) = Inr r \<longrightarrow>
          r = \<lparr>access_token = rt, token_type = ''bearer''\<rparr>
          \<and> (\<exists>user. find (\<lambda>u. email u = username) (users db) = Some user
                \<and> vp password (hashed_password user) \<and> is_active user
                \<and> snd (login vp rt now username password db)
                    = db\<lparr>tokens := tokens db
                           @ [\<lparr>token = rt, user_id = id' user, created_at = now\<rparr>]\<rparr>))"
proof (cases "find (\<lambda>u. email u = username) (users db)")
  case None
  then have no: "\<forall>u\<in>set (users db). email u \<noteq> username"
    by (simp add: find_None_iff_no_match)
  from login_not_found [OF None, where vp = vp and rt = rt and now = now and password = password] None show ?thesis
    by (simp add: bearer_headers_def)
next
  case (Some user)
  then have "user \<in> set (users db) \<and> email user = username"
    by (rule find_Some_props)
  then have some: "\<not> (\<forall>u\<in>set (users db). email u \<noteq> username)"
    by blast
  from login_found [OF Some, where vp = vp and rt = rt and now = now and password = password] Some some show ?thesis
    by (simp add: bearer_headers_def)
qed


theorem login_outcomes_witness:
  "login (\<lambda>p h. h = ''h'' @ p) ''tok'' 86400000009 ''nobody@b.se'' ''1'' example_db
     = (Inl (HTTPException 400 ''User does not exist'' [(''WWW-Authenticate'', ''Bearer'')]),
        example_db)
   \<and> login (\<lambda>p h. h = ''h'' @ p) ''tok'' 86400000009 ''a@b.se'' ''2'' example_db
     = (Inl (HTTPException 401 ''Passwords do not match'' [(''WWW-Authenticate'', ''Bearer'')]),
        example_db)
   \<and> login (\<lambda>p h. h = ''h'' @ p) ''tok'' 86400000009 ''c@d.se'' ''2'' example_db
     = (Inl (HTTPException 403
              ''Account not activated. Please check your email and activate your account.''
              [(''WWW-Authenticate'', ''Bearer'')]),
        example_db)
   \<and> login (\<lambda>p h. h = ''h'' @ p) ''tok'' 86400000009 ''a@b.se'' ''1'' example_db
     = (Inr \<lparr>access_token = ''tok'', token_type = ''bearer''\<rparr>,
        example_db\<lparr>tokens := tokens example_db
                      @ [\<lparr>token = ''tok'', user_id = 1, created_at = 86400000009\<rparr>]\<rparr>)"
proof -
  let ?vp = "\<lambda>p h. h = ''h'' @ p"
  have nobody: "\<forall>u\<in>set (users example_db). email u \<noteq> ''nobody@b.se''"
    by (simp add: example_db_def example_user_def example_other_def example_admin_def)
  have user1: "find (\<lambda>u. email u = ''a@b.se'') (users example_db) = Some example_user"
    by (simp add: example_db_def example_user_def)
  have user2: "find (\<lambda>u. email u = ''c@d.se'') (users example_db) = Some example_other"
    by (simp add: example_db_def example_user_def example_other_def)
  have fresh: "''tok'' \<notin> token ` set (tokens example_db)"
    by (simp add: example_db_def token_abc_def token_xyz_def token_def_def token_adm_def)
  have p1: "hashed_password example_user = ''h1''" "is_active example_user"
           "id' example_user = 1"
    by (simp_all add: example_user_def)
  have p2: "hashed_password example_other = ''h2''" "\<not> is_active example_other"
    by (simp_all add: example_other_def)
  have a: "login ?vp ''tok'' 86400000009 ''nobody@b.se'' ''1'' example_db
     = (Inl (HTTPException 400 ''User does not exist'' [(''WWW-Authenticate'', ''Bearer'')]),
        example_db)"
    using login_outcomes [of example_db "''nobody@b.se''" ?vp "''tok''" 86400000009 "''1''",
            THEN conjunct1, THEN mp, OF nobody] .
  have b: "login ?vp ''tok'' 86400000009 ''a@b.se'' ''2'' example_db
     = (Inl (HTTPException 401 ''Passwords do not match'' [(''WWW-Authenticate'', ''Bearer'')]),
        example_db)"
    using login_outcomes [of example_db "''a@b.se''" ?vp "''tok''" 86400000009 "''2''",
            THEN conjunct2, THEN conjunct1, rule_format, OF user1]
    by (simp add: p1)
  have c: "login ?vp ''tok'' 86400000009 ''c@d.se'' ''2'' example_db
     = (Inl (HTTPException 403
              ''Account not activated. Please check your email and activate your account.''
              [(''WWW-Authenticate'', ''Bearer'')]),
        example_db)"
    using login_outcomes [of example_db "''c@d.se''" ?vp "''tok''" 86400000009 "''2''",
            THEN conjunct2, THEN conjunct1, rule_format, OF user2]
    by (simp add: p2)
  have d: "login ?vp ''tok'' 86400000009 ''a@b.se'' ''1'' example_db
     = (Inr \<lparr>access_token = ''tok'', token_type = ''bearer''\<rparr>,
        example_db\<lparr>tokens := tokens example_db
                      @ [\<lparr>token = ''tok'', user_id = 1, created_at = 86400000009\<rparr>]\<rparr>)"
    using login_outcomes [of example_db "''a@b.se''" ?vp "''tok''" 86400000009 "''1''",
            THEN conjunct2, THEN conjunct1, rule_format, OF user1] fresh
    by (simp add: p1)
  from a b c d show ?thesis by (intro conjI)
qed

section \<open>Logout\<close>

lemma find_filter_implied:
  assumes "\<And>x. P x \<Longrightarrow> Q x"
  shows "find P (filter Q xs) = find P xs"
  using assms by (induction xs) auto

lemma filter_key_remove1:
  assumes "distinct (map token xs)" and "tk \<in> set xs"
  shows "filter (\<lambda>t. token t \<noteq> token tk) xs = remove1 tk xs"
  using assms
proof (induction xs)
  case Nil
  then show ?case by simp
next
  case (Cons x xs)
  show ?case
  proof (cases "x = tk")
    case True
    with Cons.prems have "token tk \<notin> token ` set xs"
      by simp
    then have "\<forall>t\<in>set xs. token t \<noteq> token tk"
      by (auto simp: image_iff)
    then have "filter (\<lambda>t. token t \<noteq> token tk) xs = xs"
      by (simp add: filter_id_conv)
    with True show ?thesis by simp
  next
    case False
    with Cons.prems have "tk \<in> set xs" and "token x \<noteq> token tk"
      by auto
    with Cons False show ?thesis by simp
  qed
qed

text \<open>
  C8. Logout with a token that verifies returns 204, leaves the users alone and removes
  from the token table the rows carrying the presented string and no others; when token
  strings are unique, as a primary key is, that is exactly the one row that verified.
  Afterwards the presented string fails verification with the 401 at any time and under
  any maximum age, and every other string verifies exactly as it did before.
\<close>

theorem logout_deletes_presented_token_only:
  assumes "verify_token_access m now s db = Inr tk"
  shows "fst (logout m now s db) = Inr 204
         \<and> users (snd (logout m now s db)) = users db
         \<and> tokens (snd (logout m now s db)) = filter (\<lambda>t. token t \<noteq> s) (tokens db)
         \<and> (distinct (map token (tokens db)) \<longrightarrow>
               tokens (snd (logout m now s db)) = remove1 tk (tokens db))
         \<and> (\<forall>m' now'. verify_token_access m' now' s (snd (logout m now s db))
               = Inl (HTTPException 401 ''Token invalid or expired''
                        [(''WWW-Authenticate'', ''Bearer'')]))
         \<and> (\<forall>m' now' s'. s' \<noteq> s \<longrightarrow>
               verify_token_access m' now' s' (snd (logout m now s db))
                 = verify_token_access m' now' s' db)"
proof -
  from assms have "find (\<lambda>t. token t = s \<and> created_at t \<ge> now - timedelta_minutes m)
                     (tokens db) = Some tk"
    by (simp add: verify_token_access_def split: option.splits)
  then have tk: "tk \<in> set (tokens db)" "token tk = s"
    by (auto dest: find_Some_props)
  have out: "logout m now s db
               = (Inr 204, db\<lparr>tokens := filter (\<lambda>t. token t \<noteq> s) (tokens db)\<rparr>)"
    using assms tk(2) by (simp add: logout_def get_current_token_def)
  have exact: "filter (\<lambda>t. token t \<noteq> s) (tokens db) = remove1 tk (tokens db)"
    if "distinct (map token (tokens db))"
    using filter_key_remove1 [OF that tk(1)] tk(2) by simp
  have gone: "verify_token_access m' now' s (snd (logout m now s db))
               = Inl (HTTPException 401 ''Token invalid or expired''
                        [(''WWW-Authenticate'', ''Bearer'')])" for m' now'
  proof -
    have "find (\<lambda>t. token t = s \<and> created_at t \<ge> now' - timedelta_minutes m')
            (filter (\<lambda>t. token t \<noteq> s) (tokens db)) = None"
      by (simp add: find_None_iff_no_match)
    then show ?thesis
      by (simp add: out verify_token_access_def bearer_headers_def)
  qed
  have others: "verify_token_access m' now' s' (snd (logout m now s db))
                  = verify_token_access m' now' s' db" if "s' \<noteq> s" for m' now' s'
  proof -
    have "find (\<lambda>t. token t = s' \<and> created_at t \<ge> now' - timedelta_minutes m')
            (filter (\<lambda>t. token t \<noteq> s) (tokens db))
          = find (\<lambda>t. token t = s' \<and> created_at t \<ge> now' - timedelta_minutes m') (tokens db)"
      using that by (intro find_filter_implied) simp
    then show ?thesis
      by (simp add: out verify_token_access_def)
  qed
  from out exact gone others show ?thesis
    by simp
qed

theorem logout_deletes_presented_token_only_witness:
  "verify_token_access 30 86400000001 ''abc'' example_db = Inr token_abc
   \<and> distinct (map token (tokens example_db))
   \<and> fst (logout 30 86400000001 ''abc'' example_db) = Inr 204
   \<and> tokens (snd (logout 30 86400000001 ''abc'' example_db))
       = [token_xyz, token_def, token_adm]
   \<and> verify_token_access 30 86400000002 ''abc'' (snd (logout 30 86400000001 ''abc'' example_db))
       = Inl (HTTPException 401 ''Token invalid or expired'' [(''WWW-Authenticate'', ''Bearer'')])
   \<and> ''def'' \<noteq> ''abc''
   \<and> verify_token_access 30 86400000002 ''def'' (snd (logout 30 86400000001 ''abc'' example_db))
       = Inr token_def"
proof -
  have dist: "distinct (map token (tokens example_db))"
    by (simp add: example_db_def token_abc_def token_xyz_def token_def_def token_adm_def)
  have before: "verify_token_access 30 86400000002 ''def'' example_db = Inr token_def"
    by (simp add: verify_token_access_def example_db_def token_abc_def token_xyz_def
                  token_def_def token_adm_def timedelta_minutes_def)
  have rem: "remove1 token_abc (tokens example_db) = [token_xyz, token_def, token_adm]"
    by (simp add: example_db_def)
  note main = logout_deletes_presented_token_only [OF example_lookups(1)]
  have ok: "fst (logout 30 86400000001 ''abc'' example_db) = Inr 204"
    using main [THEN conjunct1] .
  have toks: "tokens (snd (logout 30 86400000001 ''abc'' example_db))
                = [token_xyz, token_def, token_adm]"
    using main [THEN conjunct2, THEN conjunct2, THEN conjunct2, THEN conjunct1, rule_format,
                OF dist]
    by (simp only: rem)
  have gone: "verify_token_access 30 86400000002 ''abc''
                (snd (logout 30 86400000001 ''abc'' example_db))
       = Inl (HTTPException 401 ''Token invalid or expired'' [(''WWW-Authenticate'', ''Bearer'')])"
    using main [THEN conjunct2, THEN conjunct2, THEN conjunct2, THEN conjunct2, THEN conjunct1,
                rule_format, of 30 86400000002] .
  have neq: "''def'' \<noteq> ''abc''"
    by simp
  have other: "verify_token_access 30 86400000002 ''def''
                 (snd (logout 30 86400000001 ''abc'' example_db)) = Inr token_def"
    using main [THEN conjunct2, THEN conjunct2, THEN conjunct2, THEN conjunct2, THEN conjunct2,
                rule_format, OF neq, of 30 86400000002]
    by (simp only: before)
  from example_lookups(1) dist ok toks gone neq other show ?thesis
    by (intro conjI)
qed

end
